theory Spec2Isabelle
  imports Complex_Main
begin

section \<open>Configuration (autoscaler/config.py)\<close>

text \<open>
  \<^verbatim>\<open>AutoscalerConfig\<close> reads its numeric options with \<^verbatim>\<open>int(os.getenv(NAME, default))\<close>,
  so each of them is an arbitrary Python integer; the scaling algorithm is an arbitrary
  string. The options read from the environment are the fields of a record, the
  attributes fixed in the class body are constants.

  Python floats are modelled as exact rationals throughout: every finite float is a
  rational and the code only compares, averages and scales them. Rounding of the float
  operations is not modelled.
\<close>

record config =
  SCALE_UP_THRESHOLD :: int
  SCALE_DOWN_THRESHOLD :: int
  MIN_REPLICAS :: int
  MAX_REPLICAS :: int
  CHECK_INTERVAL :: int
  COOLDOWN_PERIOD :: int
  SCALING_ALGORITHM :: string
  CPU_SCALE_UP_THRESHOLD :: int
  CPU_SCALE_DOWN_THRESHOLD :: int
  MEMORY_SCALE_UP_THRESHOLD :: int
  MEMORY_SCALE_DOWN_THRESHOLD :: int
  RESPONSE_TIME_SCALE_UP_THRESHOLD :: int
  RESPONSE_TIME_SCALE_DOWN_THRESHOLD :: int
  PREDICTION_SAMPLES :: int

definition default_config :: config where
  "default_config =
     \<lparr> SCALE_UP_THRESHOLD = 80, SCALE_DOWN_THRESHOLD = 30,
       MIN_REPLICAS = 2, MAX_REPLICAS = 10,
       CHECK_INTERVAL = 30, COOLDOWN_PERIOD = 120,
       SCALING_ALGORITHM = ''linear'',
       CPU_SCALE_UP_THRESHOLD = 70, CPU_SCALE_DOWN_THRESHOLD = 20,
       MEMORY_SCALE_UP_THRESHOLD = 80, MEMORY_SCALE_DOWN_THRESHOLD = 40,
       RESPONSE_TIME_SCALE_UP_THRESHOLD = 1000, RESPONSE_TIME_SCALE_DOWN_THRESHOLD = 200,
       PREDICTION_SAMPLES = 10 \<rparr>"

definition API_SERVICE_NAME :: string where
  "API_SERVICE_NAME = ''scalable-backend-production_api''"

definition POSTGRES_SERVICE_NAME :: string where
  "POSTGRES_SERVICE_NAME = ''scalable-backend-production_postgres''"

definition REDIS_SERVICE_NAME :: string where
  "REDIS_SERVICE_NAME = ''scalable-backend-production_redis''"




section \<open>Values, errors and the metrics dictionary\<close>

text \<open>
  A metrics dictionary maps a key to a number or to a boolean (the \<^verbatim>\<open>healthy\<close> entry).
  \<^verbatim>\<open>metrics.get(k, 0)\<close> yields 0 for an absent key; a Python boolean used as a number
  is 0 or 1.
\<close>

datatype pyval = PyBool bool | PyNum rat

type_synonym metrics = "string \<rightharpoonup> pyval"

datatype error = ValueError | StatisticsError

fun num_of :: "pyval \<Rightarrow> rat" where
  "num_of (PyNum x) = x"
| "num_of (PyBool b) = (if b then 1 else 0)"

definition get_or_zero :: "metrics \<Rightarrow> string \<Rightarrow> rat" where
  "get_or_zero m k = (case m k of None \<Rightarrow> 0 | Some v \<Rightarrow> num_of v)"

text \<open>\<^verbatim>\<open>int(x)\<close> on a float truncates towards zero.\<close>

definition py_int :: "rat \<Rightarrow> int" where
  "py_int x = (if 0 \<le> x then \<lfloor>x\<rfloor> else \<lceil>x\<rceil>)"

section \<open>MetricsCollector: the history rings and the cooldown ledger\<close>

text \<open>Instants (\<^verbatim>\<open>datetime\<close>) are microseconds since a fixed origin.\<close>

type_synonym instant = int

record sample =
  timestamp :: instant
  sample_value :: rat

text \<open>
  \<^verbatim>\<open>metrics_history\<close> is a \<^verbatim>\<open>defaultdict\<close> whose factory is
  \<^verbatim>\<open>deque(maxlen=PREDICTION_SAMPLES)\<close>: reading an absent key builds an empty ring, and
  building a ring with a negative \<^verbatim>\<open>maxlen\<close> raises \<^verbatim>\<open>ValueError\<close>.
  The empty ring that a read leaves behind is not observable later (an absent key reads
  as the empty ring again), so reads do not return a new store.
\<close>

type_synonym history = "string \<rightharpoonup> sample list"

definition history_key :: "string \<Rightarrow> string \<Rightarrow> string" where
  "history_key service metric_type = service @ ''_'' @ metric_type"

definition history_ring :: "config \<Rightarrow> history \<Rightarrow> string \<Rightarrow> error + sample list" where
  "history_ring cfg h key =
     (case h key of
        Some ring \<Rightarrow> Inr ring
      | None \<Rightarrow> if PREDICTION_SAMPLES cfg < 0 then Inl ValueError else Inr [])"

text \<open>\<^verbatim>\<open>deque.append\<close> on a bounded ring drops from the left what exceeds \<^verbatim>\<open>maxlen\<close>.\<close>

definition deque_append :: "int \<Rightarrow> 'a list \<Rightarrow> 'a \<Rightarrow> 'a list" where
  "deque_append maxlen ring x = (let ys = ring @ [x] in drop (length ys - nat maxlen) ys)"

definition add_metric ::
  "config \<Rightarrow> history \<Rightarrow> string \<Rightarrow> string \<Rightarrow> instant \<Rightarrow> rat \<Rightarrow> error + history" where
  "add_metric cfg h service metric_type now v =
     (let key = history_key service metric_type in
      case history_ring cfg h key of
        Inl e \<Rightarrow> Inl e
      | Inr ring \<Rightarrow>
          Inr (h(key \<mapsto> deque_append (PREDICTION_SAMPLES cfg) ring
                            \<lparr> timestamp = now, sample_value = v \<rparr>)))"

text \<open>\<^verbatim>\<open>statistics.mean\<close> raises \<^verbatim>\<open>StatisticsError\<close> on an empty sequence.\<close>

definition mean :: "rat list \<Rightarrow> error + rat" where
  "mean xs = (if xs = [] then Inl StatisticsError else Inr (sum_list xs / of_nat (length xs)))"

definition get_trend :: "config \<Rightarrow> history \<Rightarrow> string \<Rightarrow> string \<Rightarrow> error + string" where
  "get_trend cfg h service metric_type =
     (let key = history_key service metric_type in
      case history_ring cfg h key of
        Inl e \<Rightarrow> Inl e
      | Inr ring \<Rightarrow>
          if length ring < 3 then Inr ''stable''
          else
            let vals = map sample_value (drop (length ring - 5) ring) in
            if length vals < 3 then Inr ''stable''
            else
              case mean (drop (length vals - 3) vals) of
                Inl e \<Rightarrow> Inl e
              | Inr recent_avg \<Rightarrow>
                  (case (if length vals > 3 then mean (take (length vals - 3) vals)
                         else Inr (vals ! 0)) of
                     Inl e \<Rightarrow> Inl e
                   | Inr older_avg \<Rightarrow>
                       if recent_avg > older_avg * (11 / 10) then Inr ''increasing''
                       else if recent_avg < older_avg * (9 / 10) then Inr ''decreasing''
                       else Inr ''stable''))"

section \<open>The decision engine (AutoScaler.make\_scaling\_decision)\<close>

definition linear_scaling_decision :: "config \<Rightarrow> metrics \<Rightarrow> int \<Rightarrow> int" where
  "linear_scaling_decision cfg m current_replicas =
     (let cpu_usage = get_or_zero m ''cpu_usage'';
          memory_usage = get_or_zero m ''memory_usage'';
          response_time = get_or_zero m ''response_time'';
          scale_up = (cpu_usage > of_int (CPU_SCALE_UP_THRESHOLD cfg)
                      \<or> memory_usage > of_int (MEMORY_SCALE_UP_THRESHOLD cfg)
                      \<or> response_time > of_int (RESPONSE_TIME_SCALE_UP_THRESHOLD cfg));
          scale_down = (cpu_usage < of_int (CPU_SCALE_DOWN_THRESHOLD cfg)
                        \<and> memory_usage < of_int (MEMORY_SCALE_DOWN_THRESHOLD cfg)
                        \<and> response_time < of_int (RESPONSE_TIME_SCALE_DOWN_THRESHOLD cfg))
      in if scale_up \<and> current_replicas < MAX_REPLICAS cfg then current_replicas + 1
         else if scale_down \<and> current_replicas > MIN_REPLICAS cfg then current_replicas - 1
         else current_replicas)"

text \<open>
  The critical factor is the integer 2, the other two are the floats 1.5 and 0.7, here
  the rationals 3/2 and 7/10. The product with 1.5 is exact in floating point for every
  replica count below \<open>2\<^sup>5\<^sup>1\<close>; the product with 0.7 is rounded, and the float result
  can fall just below an integer that the exact product reaches (170 replicas give 118
  where the exact product is 119). Nothing below depends on the value of that product
  other than through the clamp.
\<close>

definition exponential_scaling_decision :: "config \<Rightarrow> metrics \<Rightarrow> int \<Rightarrow> int" where
  "exponential_scaling_decision cfg m current_replicas =
     (let cpu_usage = get_or_zero m ''cpu_usage'';
          memory_usage = get_or_zero m ''memory_usage'';
          max_usage = max cpu_usage memory_usage;
          clamp = (\<lambda>new_replicas. max (MIN_REPLICAS cfg) (min (MAX_REPLICAS cfg) new_replicas))
      in if max_usage > 90 then clamp (current_replicas * 2)
         else if max_usage > of_int (SCALE_UP_THRESHOLD cfg)
           then clamp (py_int (of_int current_replicas * (3 / 2)))
         else if max_usage < of_int (SCALE_DOWN_THRESHOLD cfg)
           then clamp (py_int (of_int current_replicas * (7 / 10)))
         else current_replicas)"

definition predictive_scaling_decision ::
  "config \<Rightarrow> history \<Rightarrow> metrics \<Rightarrow> int \<Rightarrow> error + int" where
  "predictive_scaling_decision cfg h m current_replicas =
     (case get_trend cfg h ''api'' ''cpu_usage'' of
        Inl e \<Rightarrow> Inl e
      | Inr cpu_trend \<Rightarrow>
          (case get_trend cfg h ''api'' ''memory_usage'' of
             Inl e \<Rightarrow> Inl e
           | Inr memory_trend \<Rightarrow>
               let cpu_usage = get_or_zero m ''cpu_usage'';
                   memory_usage = get_or_zero m ''memory_usage''
               in if (cpu_trend = ''increasing'' \<or> memory_trend = ''increasing'')
                     \<and> (cpu_usage > 60 \<or> memory_usage > 60)
                    then Inr (min (current_replicas + 1) (MAX_REPLICAS cfg))
                  else if (cpu_trend = ''decreasing'' \<and> memory_trend = ''decreasing'')
                     \<and> (cpu_usage < 40 \<and> memory_usage < 40)
                    then Inr (max (current_replicas - 1) (MIN_REPLICAS cfg))
                  else Inr current_replicas))"

definition make_scaling_decision ::
  "config \<Rightarrow> history \<Rightarrow> metrics \<Rightarrow> int \<Rightarrow> error + int" where
  "make_scaling_decision cfg h m current_replicas =
     (if SCALING_ALGORITHM cfg = ''linear''
        then Inr (linear_scaling_decision cfg m current_replicas)
      else if SCALING_ALGORITHM cfg = ''exponential''
        then Inr (exponential_scaling_decision cfg m current_replicas)
      else if SCALING_ALGORITHM cfg = ''predictive''
        then predictive_scaling_decision cfg h m current_replicas
      else Inr (linear_scaling_decision cfg m current_replicas))"


section \<open>The cooldown ledger\<close>

text \<open>
  The difference of two instants is a \<^verbatim>\<open>timedelta\<close>, normalised to days, seconds
  (0 to 86399) and microseconds (0 to 999999), the days carrying the sign. Its attribute
  \<^verbatim>\<open>.seconds\<close> is the seconds component alone.
\<close>

definition timedelta_days :: "int \<Rightarrow> int" where
  "timedelta_days d = d div 86400000000"

definition timedelta_seconds :: "int \<Rightarrow> int" where
  "timedelta_seconds d = (d mod 86400000000) div 1000000"

type_synonym ledger = "string \<rightharpoonup> instant"

text \<open>\<open>now\<close> is the value of \<^verbatim>\<open>datetime.now()\<close> at the call.\<close>

definition can_scale :: "config \<Rightarrow> ledger \<Rightarrow> string \<Rightarrow> instant \<Rightarrow> bool" where
  "can_scale cfg last_action service now =
     (case last_action service of
        None \<Rightarrow> True
      | Some last_instant \<Rightarrow> timedelta_seconds (now - last_instant) \<ge> COOLDOWN_PERIOD cfg)"

definition record_scaling_action :: "ledger \<Rightarrow> string \<Rightarrow> instant \<Rightarrow> ledger" where
  "record_scaling_action last_action service now = last_action(service \<mapsto> now)"

section \<open>AutoScaler: the orchestrator adapter\<close>

record autoscaler =
  metrics_history :: history
  last_scaling_action :: ledger
  docker_available :: bool

text \<open>
  \<^verbatim>\<open>__init__\<close>: \<open>env_flag\<close> is \<^verbatim>\<open>os.getenv('DOCKER_UNAVAILABLE')\<close> (a non-empty string is
  true), \<open>ping_ok\<close> says whether \<^verbatim>\<open>docker.from_env\<close> and \<^verbatim>\<open>ping\<close> both returned.
\<close>

definition init_autoscaler :: "string option \<Rightarrow> bool \<Rightarrow> autoscaler" where
  "init_autoscaler env_flag ping_ok =
     \<lparr> metrics_history = Map.empty,
       last_scaling_action = Map.empty,
       docker_available =
         (case env_flag of
            None \<Rightarrow> ping_ok
          | Some v \<Rightarrow> if v \<noteq> [] then False else ping_ok) \<rparr>"

text \<open>
  What the orchestrator answers is an input of the model: \<open>service_read\<close> is the replica
  count found by \<^verbatim>\<open>services.get(name).attrs[...]\<close>, or \<open>None\<close> when that raises.
\<close>

definition get_service_replicas :: "bool \<Rightarrow> int option \<Rightarrow> int" where
  "get_service_replicas available service_read =
     (if \<not> available then 1
      else case service_read of Some replicas \<Rightarrow> replicas | None \<Rightarrow> 0)"

datatype effect =
    Log_would_scale string int
  | Service_update string int bool
  | Counter_inc string string

text \<open>
  \<^verbatim>\<open>scale_service\<close> returns its boolean and what it did: \<open>Service_update s n ok\<close> is a call
  \<^verbatim>\<open>service.update\<close> asking for \<open>n\<close> replicas of \<open>s\<close>, which returned (\<open>ok\<close>) or raised;
  \<open>Counter_inc s d\<close> is an increment of \<^verbatim>\<open>scaling_decisions_total\<close>.
\<close>

definition scale_service ::
  "bool \<Rightarrow> string \<Rightarrow> int \<Rightarrow> int option \<Rightarrow> bool \<Rightarrow> bool \<times> effect list" where
  "scale_service available service_name target_replicas service_read update_ok =
     (if \<not> available then (False, [Log_would_scale service_name target_replicas])
      else case service_read of
        None \<Rightarrow> (False, [])
      | Some current_replicas \<Rightarrow>
          if current_replicas = target_replicas then (True, [])
          else if update_ok
            then (True, [Service_update service_name target_replicas True,
                         Counter_inc service_name
                           (if target_replicas > current_replicas then ''up'' else ''down'')])
          else (False, [Service_update service_name target_replicas False]))"

section \<open>AutoScaler: metric collection\<close>

text \<open>
  The answer of the health endpoint: the request raises, or it returns a status code,
  the parsed body (\<open>None\<close> when \<^verbatim>\<open>response.json()\<close> raises, else whether its status is
  \<^verbatim>\<open>healthy\<close>) and the elapsed time in milliseconds.
\<close>

datatype health_outcome =
    Request_raises
  | Response int "bool option" rat

text \<open>
  One container's statistics. \<open>cpu_counters = None\<close>: \<^verbatim>\<open>container.stats\<close> or a CPU field
  raises, nothing is added for the container. Otherwise the pair is (\<open>cpu_delta\<close>,
  \<open>system_delta\<close>). \<open>memory_counters = None\<close>: a memory field is missing; otherwise
  the pair is (usage, limit), and a zero limit raises \<^verbatim>\<open>ZeroDivisionError\<close>. The CPU
  share has been added by then.
\<close>

record container_stats =
  cpu_counters :: "(int \<times> int) option"
  memory_counters :: "(int \<times> int) option"

definition container_percent :: "container_stats \<Rightarrow> rat \<times> rat" where
  "container_percent c =
     (case cpu_counters c of
        None \<Rightarrow> (0, 0)
      | Some (cpu_delta, system_delta) \<Rightarrow>
          let cpu_percent =
                (if system_delta > 0 then of_int cpu_delta / of_int system_delta * 100 else 0)
          in case memory_counters c of
               None \<Rightarrow> (cpu_percent, 0)
             | Some (memory_usage, memory_limit) \<Rightarrow>
                 if memory_limit = 0 then (cpu_percent, 0)
                 else (cpu_percent, of_int memory_usage / of_int memory_limit * 100))"

definition zero_metrics :: metrics where
  "zero_metrics =
     [''healthy'' \<mapsto> PyBool False, ''response_time'' \<mapsto> PyNum 0, ''memory_usage'' \<mapsto> PyNum 0,
      ''cpu_usage'' \<mapsto> PyNum 0, ''error_rate'' \<mapsto> PyNum 0]"

text \<open>
  The result is \<open>None\<close> where the Python function falls off its end (a status other than
  200) and so returns \<^verbatim>\<open>None\<close>. \<open>listing\<close> is the answer of \<^verbatim>\<open>containers.list\<close>,
  \<open>None\<close> when it raises.
\<close>

definition collect_api_metrics ::
  "bool \<Rightarrow> health_outcome \<Rightarrow> container_stats list option \<Rightarrow> metrics option" where
  "collect_api_metrics available health listing =
     (case health of
        Request_raises \<Rightarrow> Some zero_metrics
      | Response status_code body elapsed_ms \<Rightarrow>
          if status_code = 200 then
            (case body of
               None \<Rightarrow> Some zero_metrics
             | Some healthy \<Rightarrow>
                 (case (if available then listing else Some []) of
                    None \<Rightarrow> Some zero_metrics
                  | Some api_containers \<Rightarrow>
                      let total_cpu = sum_list (map (fst \<circ> container_percent) api_containers);
                          total_memory = sum_list (map (snd \<circ> container_percent) api_containers);
                          n = of_nat (length api_containers)
                      in Some [''healthy'' \<mapsto> PyBool healthy,
                               ''response_time'' \<mapsto> PyNum elapsed_ms,
                               ''memory_usage'' \<mapsto>
                                  PyNum (if api_containers \<noteq> [] then total_memory / n else 0),
                               ''cpu_usage'' \<mapsto>
                                  PyNum (if api_containers \<noteq> [] then total_cpu / n else 0),
                               ''error_rate'' \<mapsto> PyNum 0]))
          else None)"




section \<open>AutoScaler: the per-service pipelines and the monitoring cycle\<close>

text \<open>
  Everything the outside world contributes to one run of a pipeline: the answers of the
  health endpoint and of the orchestrator, and the readings of the clock. \<open>None\<close> for an
  orchestrator answer means that the call raises.
  \<^item> \<open>replicas_read\<close>: the read of the pipeline's own service in \<^verbatim>\<open>get_service_replicas\<close>;
  \<^item> \<open>api_replicas_read\<close>: the read of the application tier by the database and cache
    collectors;
  \<^item> \<open>t_cpu\<close>, \<open>t_memory\<close>, \<open>t_response\<close>: \<^verbatim>\<open>datetime.now()\<close> in the three \<^verbatim>\<open>add_metric\<close> calls;
  \<^item> \<open>t_gate\<close>: the instant of the \<^verbatim>\<open>can_scale\<close> check;
  \<^item> \<open>scale_read\<close>, \<open>update_ok\<close>: inside \<^verbatim>\<open>scale_service\<close>, the second read of the replica
    count and whether \<^verbatim>\<open>service.update\<close> returns;
  \<^item> \<open>t_record\<close>: \<^verbatim>\<open>datetime.now()\<close> in \<^verbatim>\<open>record_scaling_action\<close>.
  The Prometheus gauges are written and never read by the controller; they are left out.
\<close>

record pipeline_io =
  health :: health_outcome
  listing :: "container_stats list option"
  replicas_read :: "int option"
  api_replicas_read :: "int option"
  t_cpu :: instant
  t_memory :: instant
  t_response :: instant
  t_gate :: instant
  scale_read :: "int option"
  update_ok :: bool
  t_record :: instant

text \<open>
  Each pipeline is wrapped in \<^verbatim>\<open>try ... except Exception\<close>, which logs and returns: an
  exception inside leaves the state as it was when it was raised. With no metrics
  dictionary (\<^verbatim>\<open>None\<close>), \<^verbatim>\<open>metrics['cpu_usage']\<close> raises \<^verbatim>\<open>TypeError\<close> before anything is
  stored.
\<close>

definition scale_api_instances ::
  "config \<Rightarrow> autoscaler \<Rightarrow> pipeline_io \<Rightarrow> autoscaler \<times> effect list" where
  "scale_api_instances cfg st io =
     (case collect_api_metrics (docker_available st) (health io) (listing io) of
        None \<Rightarrow> (st, [])
      | Some m \<Rightarrow>
          let current_replicas = get_service_replicas (docker_available st) (replicas_read io)
          in case add_metric cfg (metrics_history st) ''api'' ''cpu_usage'' (t_cpu io)
                    (get_or_zero m ''cpu_usage'') of
               Inl e \<Rightarrow> (st, [])
             | Inr h1 \<Rightarrow>
          (case add_metric cfg h1 ''api'' ''memory_usage'' (t_memory io)
                    (get_or_zero m ''memory_usage'') of
               Inl e \<Rightarrow> (st\<lparr>metrics_history := h1\<rparr>, [])
             | Inr h2 \<Rightarrow>
          (case add_metric cfg h2 ''api'' ''response_time'' (t_response io)
                    (get_or_zero m ''response_time'') of
               Inl e \<Rightarrow> (st\<lparr>metrics_history := h2\<rparr>, [])
             | Inr h3 \<Rightarrow>
          let st3 = st\<lparr>metrics_history := h3\<rparr>
          in if \<not> can_scale cfg (last_scaling_action st3) ''api'' (t_gate io) then (st3, [])
             else
               (case make_scaling_decision cfg h3 m current_replicas of
                  Inl e \<Rightarrow> (st3, [])
                | Inr target_replicas \<Rightarrow>
                    if target_replicas \<noteq> current_replicas then
                      (case scale_service (docker_available st3) API_SERVICE_NAME
                              target_replicas (scale_read io) (update_ok io) of
                         (True, effs) \<Rightarrow>
                           (st3\<lparr>last_scaling_action :=
                                  record_scaling_action (last_scaling_action st3) ''api''
                                    (t_record io)\<rparr>, effs)
                       | (False, effs) \<Rightarrow> (st3, effs))
                    else (st3, [])))))"













section \<open>The trend algorithm as the specification words it\<close>






section \<open>Concrete inputs\<close>

text \<open>
  A loaded application tier (one container at 85 percent CPU and 50 percent memory, the
  health endpoint answering in 300 ms) with three replicas, and the same tick with the
  health request failing, or with the orchestrator already at four replicas when
  \<^verbatim>\<open>scale_service\<close> reads the count again.
\<close>

definition busy_metrics :: metrics where
  "busy_metrics =
     [''healthy'' \<mapsto> PyBool True, ''response_time'' \<mapsto> PyNum 300, ''memory_usage'' \<mapsto> PyNum 50,
      ''cpu_usage'' \<mapsto> PyNum 85, ''error_rate'' \<mapsto> PyNum 0]"

definition idle_metrics :: metrics where
  "idle_metrics =
     [''healthy'' \<mapsto> PyBool True, ''response_time'' \<mapsto> PyNum 50, ''memory_usage'' \<mapsto> PyNum 0,
      ''cpu_usage'' \<mapsto> PyNum 0, ''error_rate'' \<mapsto> PyNum 0]"

definition busy_io :: pipeline_io where
  "busy_io =
     \<lparr> health = Response 200 (Some True) 300,
       listing = Some [\<lparr> cpu_counters = Some (85, 100), memory_counters = Some (50, 100) \<rparr>],
       replicas_read = Some 3,
       api_replicas_read = Some 3,
       t_cpu = 1000000, t_memory = 1000001, t_response = 1000002,
       t_gate = 1000003,
       scale_read = Some 3, update_ok = True,
       t_record = 1500000 \<rparr>"

definition outage_io :: pipeline_io where
  "outage_io = busy_io \<lparr> health := Request_raises \<rparr>"

definition raced_io :: pipeline_io where
  "raced_io = busy_io \<lparr> scale_read := Some 4 \<rparr>"

definition exponential_config :: config where
  "exponential_config = default_config \<lparr> SCALING_ALGORITHM := ''exponential'' \<rparr>"






section \<open>Notions used in the proof of cooldown separation\<close>




section \<open>Evaluation and basic facts\<close>

lemmas decision_defs =
  make_scaling_decision_def linear_scaling_decision_def exponential_scaling_decision_def
  get_or_zero_def py_int_def Let_def

lemmas example_defs =
  default_config_def exponential_config_def busy_metrics_def idle_metrics_def
  busy_io_def outage_io_def raced_io_def zero_metrics_def init_autoscaler_def
  API_SERVICE_NAME_def POSTGRES_SERVICE_NAME_def REDIS_SERVICE_NAME_def

lemmas pipeline_defs =
  scale_api_instances_def collect_api_metrics_def container_percent_def
  get_service_replicas_def add_metric_def history_ring_def history_key_def deque_append_def
  can_scale_def scale_service_def record_scaling_action_def

lemma linear_ignores_algorithm:
  "linear_scaling_decision (cfg\<lparr>SCALING_ALGORITHM := alg\<rparr>) m c = linear_scaling_decision cfg m c"
  by (simp add: linear_scaling_decision_def Let_def)

lemma linear_in_range:
  "MIN_REPLICAS cfg \<le> c \<Longrightarrow> c \<le> MAX_REPLICAS cfg \<Longrightarrow>
   MIN_REPLICAS cfg \<le> linear_scaling_decision cfg m c
   \<and> linear_scaling_decision cfg m c \<le> MAX_REPLICAS cfg"
  by (auto simp: linear_scaling_decision_def Let_def)

lemma exponential_in_range:
  "MIN_REPLICAS cfg \<le> c \<Longrightarrow> c \<le> MAX_REPLICAS cfg \<Longrightarrow>
   MIN_REPLICAS cfg \<le> exponential_scaling_decision cfg m c
   \<and> exponential_scaling_decision cfg m c \<le> MAX_REPLICAS cfg"
  by (auto simp: exponential_scaling_decision_def Let_def)

lemma get_trend_returns:
  "history_ring cfg h (history_key s mt) = Inr ring \<Longrightarrow> \<exists>t. get_trend cfg h s mt = Inr t"
  by (auto simp: get_trend_def Let_def mean_def split: sum.splits)

lemma history_ring_raises:
  "history_ring cfg h k = Inl e \<Longrightarrow> PREDICTION_SAMPLES cfg < 0 \<and> h k = None"
  by (auto simp: history_ring_def split: option.splits if_splits)

lemma get_trend_raises:
  "get_trend cfg h s mt = Inl e \<Longrightarrow> PREDICTION_SAMPLES cfg < 0"
  using get_trend_returns[of cfg h s mt] history_ring_raises[of cfg h "history_key s mt"]
  by (cases "history_ring cfg h (history_key s mt)") auto

lemma predictive_in_range:
  "MIN_REPLICAS cfg \<le> c \<Longrightarrow> c \<le> MAX_REPLICAS cfg \<Longrightarrow>
   predictive_scaling_decision cfg h m c = Inr t \<Longrightarrow>
   MIN_REPLICAS cfg \<le> t \<and> t \<le> MAX_REPLICAS cfg"
  by (auto simp: predictive_scaling_decision_def Let_def split: sum.splits if_splits)

lemma predictive_raises:
  "predictive_scaling_decision cfg h m c = Inl e \<Longrightarrow> PREDICTION_SAMPLES cfg < 0"
  by (auto simp: predictive_scaling_decision_def Let_def split: sum.splits if_splits
           dest: get_trend_raises)

lemma decision_in_range:
  assumes "MIN_REPLICAS cfg \<le> c" and "c \<le> MAX_REPLICAS cfg"
      and "make_scaling_decision cfg h m c = Inr t"
  shows "MIN_REPLICAS cfg \<le> t \<and> t \<le> MAX_REPLICAS cfg"
  using assms linear_in_range[of cfg c m] exponential_in_range[of cfg c m]
        predictive_in_range[of cfg c h m t]
  by (auto simp: make_scaling_decision_def split: if_splits)

lemma decision_raises:
  "make_scaling_decision cfg h m c = Inl e \<Longrightarrow>
   SCALING_ALGORITHM cfg = ''predictive'' \<and> PREDICTION_SAMPLES cfg < 0"
  by (auto simp: make_scaling_decision_def split: if_splits dest: predictive_raises)

lemma scale_service_update:
  "scale_service av name target r u = (b, effs) \<Longrightarrow> Service_update s n ok \<in> set effs \<Longrightarrow>
   s = name \<and> n = target \<and> av"
  by (auto simp: scale_service_def split: option.splits if_splits)

lemma api_update_is_decision:
  assumes "Service_update s n ok \<in> set (snd (scale_api_instances cfg st io))"
  shows "\<exists>h m. make_scaling_decision cfg h m
            (get_service_replicas (docker_available st) (replicas_read io)) = Inr n
         \<and> n \<noteq> get_service_replicas (docker_available st) (replicas_read io)
         \<and> s = API_SERVICE_NAME"
  using assms
  by (auto simp: scale_api_instances_def Let_def
           split: option.splits sum.splits if_splits prod.splits bool.splits
           dest: scale_service_update)

section \<open>C7: an unrecognized algorithm tag\<close>

text \<open>
  C7. With an algorithm tag that is none of \<^verbatim>\<open>linear\<close>, \<^verbatim>\<open>exponential\<close>, \<^verbatim>\<open>predictive\<close>,
  \<^verbatim>\<open>make_scaling_decision\<close> returns exactly what it returns with the tag \<^verbatim>\<open>linear\<close> on the
  same metrics and replica count, and it returns a value (it does not raise).
\<close>

theorem unrecognized_algorithm_falls_back_to_linear:
  assumes "SCALING_ALGORITHM cfg \<noteq> ''linear''"
      and "SCALING_ALGORITHM cfg \<noteq> ''exponential''"
      and "SCALING_ALGORITHM cfg \<noteq> ''predictive''"
  shows "make_scaling_decision cfg h m current
           = make_scaling_decision (cfg\<lparr>SCALING_ALGORITHM := ''linear''\<rparr>) h m current
         \<and> (\<exists>target. make_scaling_decision cfg h m current = Inr target)"
  using assms by (simp add: make_scaling_decision_def linear_ignores_algorithm)

theorem unrecognized_algorithm_witness:
  "SCALING_ALGORITHM (default_config\<lparr>SCALING_ALGORITHM := ''turbo''\<rparr>) \<noteq> ''linear''
   \<and> SCALING_ALGORITHM (default_config\<lparr>SCALING_ALGORITHM := ''turbo''\<rparr>) \<noteq> ''exponential''
   \<and> SCALING_ALGORITHM (default_config\<lparr>SCALING_ALGORITHM := ''turbo''\<rparr>) \<noteq> ''predictive''
   \<and> make_scaling_decision (default_config\<lparr>SCALING_ALGORITHM := ''turbo''\<rparr>) Map.empty busy_metrics 3
       = make_scaling_decision (default_config\<lparr>SCALING_ALGORITHM := ''turbo'',
                                               SCALING_ALGORITHM := ''linear''\<rparr>)
           Map.empty busy_metrics 3
   \<and> make_scaling_decision (default_config\<lparr>SCALING_ALGORITHM := ''turbo''\<rparr>) Map.empty busy_metrics 3
       = Inr 4"
proof -
  let ?cfg = "default_config\<lparr>SCALING_ALGORITHM := ''turbo''\<rparr>"
  have a: "SCALING_ALGORITHM ?cfg \<noteq> ''linear''" by simp
  have b: "SCALING_ALGORITHM ?cfg \<noteq> ''exponential''" by simp
  have c: "SCALING_ALGORITHM ?cfg \<noteq> ''predictive''" by simp
  have d: "make_scaling_decision ?cfg Map.empty busy_metrics 3 = Inr 4"
    by (simp add: decision_defs example_defs)
  from unrecognized_algorithm_falls_back_to_linear[OF a b c, of Map.empty busy_metrics 3] a b c d
  show ?thesis by simp
qed

section \<open>C1: the decision stays within the replica bounds\<close>

text \<open>
  C1 as stated fails: the claim ranges over every current replica count, and a count
  outside the bounds is returned unchanged or moved by one step only. In monitoring-only
  mode the count is reported as 1, below the default minimum 2, and the linear algorithm
  returns 1; from 12 replicas on an idle tier it returns 11, above the default maximum 10,
  which is an actuation target.
\<close>

theorem decision_bounds_counterexample:
  "make_scaling_decision default_config Map.empty idle_metrics 1 = Inr 1
   \<and> \<not> MIN_REPLICAS default_config \<le> 1
   \<and> make_scaling_decision default_config Map.empty idle_metrics 12 = Inr 11
   \<and> \<not> 11 \<le> MAX_REPLICAS default_config"
  by (simp add: decision_defs example_defs)

text \<open>
  C1, amended. When the current replica count lies in \<open>[MIN_REPLICAS, MAX_REPLICAS]\<close>, then
  for every algorithm tag and every metrics snapshot \<^verbatim>\<open>make_scaling_decision\<close> returns a
  value in \<open>[MIN_REPLICAS, MAX_REPLICAS]\<close> (it raises only under the predictive algorithm
  with a negative \<^verbatim>\<open>PREDICTION_SAMPLES\<close>), and every update that the application
  pipeline issues from such a count asks for a target within the bounds.
\<close>

theorem decision_within_bounds:
  assumes "MIN_REPLICAS cfg \<le> current" and "current \<le> MAX_REPLICAS cfg"
  shows "(case make_scaling_decision cfg h m current of
            Inr target \<Rightarrow> MIN_REPLICAS cfg \<le> target \<and> target \<le> MAX_REPLICAS cfg
          | Inl e \<Rightarrow> SCALING_ALGORITHM cfg = ''predictive'' \<and> PREDICTION_SAMPLES cfg < 0)
         \<and> (\<forall>s n ok.
               get_service_replicas (docker_available st) (replicas_read io) = current
               \<longrightarrow> Service_update s n ok \<in> set (snd (scale_api_instances cfg st io))
               \<longrightarrow> s = API_SERVICE_NAME \<and> MIN_REPLICAS cfg \<le> n \<and> n \<le> MAX_REPLICAS cfg)"
proof (intro conjI allI impI)
  show "case make_scaling_decision cfg h m current of
            Inr target \<Rightarrow> MIN_REPLICAS cfg \<le> target \<and> target \<le> MAX_REPLICAS cfg
          | Inl e \<Rightarrow> SCALING_ALGORITHM cfg = ''predictive'' \<and> PREDICTION_SAMPLES cfg < 0"
    using assms decision_in_range[of cfg current h m] decision_raises[of cfg h m current]
    by (cases "make_scaling_decision cfg h m current") auto
next
  fix s n ok
  assume rd: "get_service_replicas (docker_available st) (replicas_read io) = current"
     and up: "Service_update s n ok \<in> set (snd (scale_api_instances cfg st io))"
  from api_update_is_decision[OF up] rd obtain h' m'
    where dec: "make_scaling_decision cfg h' m' current = Inr n" and nm: "s = API_SERVICE_NAME"
    by auto
  from decision_in_range[OF assms dec] nm
  show "s = API_SERVICE_NAME" and "MIN_REPLICAS cfg \<le> n" and "n \<le> MAX_REPLICAS cfg"
    by auto
qed

theorem decision_within_bounds_witness:
  "MIN_REPLICAS default_config \<le> 3 \<and> 3 \<le> MAX_REPLICAS default_config
   \<and> make_scaling_decision default_config Map.empty busy_metrics 3 = Inr 4
   \<and> get_service_replicas (docker_available (init_autoscaler None True)) (replicas_read busy_io) = 3
   \<and> Service_update API_SERVICE_NAME 4 True
        \<in> set (snd (scale_api_instances default_config (init_autoscaler None True) busy_io))
   \<and> MIN_REPLICAS default_config \<le> 4 \<and> 4 \<le> MAX_REPLICAS default_config"
proof -
  have lo: "MIN_REPLICAS default_config \<le> 3" by (simp add: default_config_def)
  have hi: "3 \<le> MAX_REPLICAS default_config" by (simp add: default_config_def)
  have dec: "make_scaling_decision default_config Map.empty busy_metrics 3 = Inr 4"
    by (simp add: decision_defs example_defs)
  have rd: "get_service_replicas (docker_available (init_autoscaler None True))
              (replicas_read busy_io) = 3"
    by (simp add: get_service_replicas_def example_defs)
  have up: "Service_update API_SERVICE_NAME 4 True
              \<in> set (snd (scale_api_instances default_config (init_autoscaler None True) busy_io))"
    by (simp add: pipeline_defs decision_defs example_defs)
  from decision_within_bounds[OF lo hi, of Map.empty busy_metrics "init_autoscaler None True" busy_io]
       rd up
  have "MIN_REPLICAS default_config \<le> 4 \<and> 4 \<le> MAX_REPLICAS default_config"
    by blast
  with lo hi dec rd up show ?thesis by simp
qed

section \<open>C3: the exponential algorithm under moderate load\<close>

text \<open>
  C3 as stated fails in its last instance: with one replica the floor of 1.5 is 1, but the
  result is clamped to the bounds, and the default minimum is 2.
\<close>

theorem exponential_single_replica_counterexample:
  "of_int (SCALE_UP_THRESHOLD exponential_config)
     < max (get_or_zero busy_metrics ''cpu_usage'') (get_or_zero busy_metrics ''memory_usage'')
   \<and> max (get_or_zero busy_metrics ''cpu_usage'') (get_or_zero busy_metrics ''memory_usage'') \<le> 90
   \<and> make_scaling_decision exponential_config Map.empty busy_metrics 1 = Inr 2
   \<and> make_scaling_decision exponential_config Map.empty busy_metrics 1 \<noteq> Inr 1"
  by (simp add: decision_defs example_defs)

text \<open>
  C3, amended. Under the exponential algorithm, with \<open>max(cpu, mem)\<close> strictly greater than
  \<^verbatim>\<open>SCALE_UP_THRESHOLD\<close> and at most 90 and a non-negative replica count, the result is
  \<open>floor(current * 1.5)\<close> clamped to \<open>[MIN_REPLICAS, MAX_REPLICAS]\<close>, that is
  \<open>max(MIN, min(MAX, floor(current * 1.5)))\<close>. For \<open>current = 3\<close> it is 4 whenever
  \<open>MIN \<le> 4 \<le> MAX\<close>; for \<open>current = 1\<close> the floor is 1 and the result is \<open>max(MIN, 1)\<close>
  whenever \<open>1 \<le> MAX\<close>: 1 only if \<open>MIN \<le> 1\<close>, and 2 with the default minimum.
\<close>

theorem exponential_moderate_load:
  assumes "SCALING_ALGORITHM cfg = ''exponential''"
      and "0 \<le> current"
      and "of_int (SCALE_UP_THRESHOLD cfg)
             < max (get_or_zero m ''cpu_usage'') (get_or_zero m ''memory_usage'')"
      and "max (get_or_zero m ''cpu_usage'') (get_or_zero m ''memory_usage'') \<le> 90"
  shows "make_scaling_decision cfg h m current
           = Inr (max (MIN_REPLICAS cfg)
                    (min (MAX_REPLICAS cfg) \<lfloor>(of_int current :: rat) * (3 / 2)\<rfloor>))
         \<and> (current = 3 \<and> MIN_REPLICAS cfg \<le> 4 \<and> 4 \<le> MAX_REPLICAS cfg
              \<longrightarrow> make_scaling_decision cfg h m current = Inr 4)
         \<and> (current = 1 \<and> 1 \<le> MAX_REPLICAS cfg
              \<longrightarrow> make_scaling_decision cfg h m current = Inr (max (MIN_REPLICAS cfg) 1))"
proof -
  have nonneg: "0 \<le> (of_int current :: rat) * (3 / 2)"
    using assms(2) by simp
  have main: "make_scaling_decision cfg h m current
           = Inr (max (MIN_REPLICAS cfg)
                    (min (MAX_REPLICAS cfg) \<lfloor>(of_int current :: rat) * (3 / 2)\<rfloor>))"
    using assms(1,3,4) nonneg
    by (simp add: make_scaling_decision_def exponential_scaling_decision_def py_int_def Let_def
                  less_max_iff_disj)
  have three: "\<lfloor>(of_int (3::int) :: rat) * (3 / 2)\<rfloor> = 4" by (simp add: floor_eq_iff)
  have one: "\<lfloor>(of_int (1::int) :: rat) * (3 / 2)\<rfloor> = 1" by (simp add: floor_eq_iff)
  show ?thesis
    using main three one by auto
qed

theorem exponential_moderate_load_witness:
  "SCALING_ALGORITHM exponential_config = ''exponential'' \<and> (0::int) \<le> 3
   \<and> of_int (SCALE_UP_THRESHOLD exponential_config)
       < max (get_or_zero busy_metrics ''cpu_usage'') (get_or_zero busy_metrics ''memory_usage'')
   \<and> max (get_or_zero busy_metrics ''cpu_usage'') (get_or_zero busy_metrics ''memory_usage'') \<le> 90
   \<and> MIN_REPLICAS exponential_config \<le> 4 \<and> 4 \<le> MAX_REPLICAS exponential_config
   \<and> make_scaling_decision exponential_config Map.empty busy_metrics 3 = Inr 4"
proof -
  have a: "SCALING_ALGORITHM exponential_config = ''exponential''"
    by (simp add: example_defs)
  have b: "(0::int) \<le> 3" by simp
  have c: "of_int (SCALE_UP_THRESHOLD exponential_config)
       < max (get_or_zero busy_metrics ''cpu_usage'') (get_or_zero busy_metrics ''memory_usage'')"
    by (simp add: example_defs get_or_zero_def)
  have d: "max (get_or_zero busy_metrics ''cpu_usage'') (get_or_zero busy_metrics ''memory_usage'') \<le> 90"
    by (simp add: example_defs get_or_zero_def)
  have e: "MIN_REPLICAS exponential_config \<le> 4 \<and> 4 \<le> MAX_REPLICAS exponential_config"
    by (simp add: example_defs)
  from exponential_moderate_load[OF a b c d, of Map.empty] e
  have "make_scaling_decision exponential_config Map.empty busy_metrics 3 = Inr 4"
    by blast
  with a b c d e show ?thesis by blast
qed

section \<open>C4: the cooldown check\<close>

text \<open>
  C4. \<^verbatim>\<open>can_scale\<close> compares the \<^verbatim>\<open>.seconds\<close> component of the elapsed time, which leaves
  out whole days. One day and ten seconds after the last scaling action (86410 s, far
  beyond the cooldown of 120 s) the seconds component is 10 and \<^verbatim>\<open>can_scale\<close> answers
  false, where the claim requires true.
\<close>

theorem can_scale_drops_whole_days:
  "[''api'' \<mapsto> (0::int)] ''api'' = Some 0
   \<and> COOLDOWN_PERIOD default_config * 1000000 \<le> 86410000000 - 0
   \<and> timedelta_days (86410000000 - 0) = 1
   \<and> timedelta_seconds (86410000000 - 0) = 10
   \<and> \<not> can_scale default_config [''api'' \<mapsto> 0] ''api'' 86410000000"
  by (simp add: can_scale_def timedelta_seconds_def timedelta_days_def default_config_def)

section \<open>C6: monitoring-only mode\<close>

text \<open>
  C6 as stated fails: in monitoring-only mode \<^verbatim>\<open>scale_service\<close> returns \<^verbatim>\<open>False\<close>, not
  success.
\<close>

theorem monitoring_only_scale_counterexample:
  "\<not> docker_available (init_autoscaler (Some ''1'') True)
   \<and> \<not> fst (scale_service (docker_available (init_autoscaler (Some ''1'') True))
              API_SERVICE_NAME 4 (Some 3) True)"
  by (simp add: scale_service_def init_autoscaler_def)

text \<open>
  C6, amended. In monitoring-only mode (\<^verbatim>\<open>DOCKER_UNAVAILABLE\<close> set to a non-empty string, or
  the client or its ping failing), \<^verbatim>\<open>get_service_replicas\<close> returns 1 for every service,
  and \<^verbatim>\<open>scale_service\<close> logs the would-be action, performs no actuation and returns
  \<^verbatim>\<open>False\<close>; the application pipeline therefore issues no update and leaves the cooldown
  ledger as it was.
\<close>

theorem monitoring_only_mode:
  assumes "(\<exists>v. env_flag = Some v \<and> v \<noteq> []) \<or> \<not> ping_ok"
  shows "\<not> docker_available (init_autoscaler env_flag ping_ok)
         \<and> get_service_replicas (docker_available (init_autoscaler env_flag ping_ok)) service_read = 1
         \<and> scale_service (docker_available (init_autoscaler env_flag ping_ok))
              service_name target service_read update_result
             = (False, [Log_would_scale service_name target])
         \<and> (\<not> docker_available st \<longrightarrow>
              last_scaling_action (fst (scale_api_instances cfg st io)) = last_scaling_action st
              \<and> (\<forall>s n ok. Service_update s n ok \<notin> set (snd (scale_api_instances cfg st io))))"
proof -
  have off: "\<not> docker_available (init_autoscaler env_flag ping_ok)"
    using assms by (auto simp: init_autoscaler_def split: option.splits)
  have pipe: "last_scaling_action (fst (scale_api_instances cfg st io)) = last_scaling_action st
              \<and> (\<forall>s n ok. Service_update s n ok \<notin> set (snd (scale_api_instances cfg st io)))"
    if "\<not> docker_available st"
    using that
    by (auto simp: scale_api_instances_def scale_service_def Let_def
             split: option.splits sum.splits)
  show ?thesis
    using off pipe by (simp add: get_service_replicas_def scale_service_def)
qed

theorem monitoring_only_mode_witness:
  "(''1'' :: string) \<noteq> []
   \<and> get_service_replicas (docker_available (init_autoscaler (Some ''1'') True)) (Some 7) = 1
   \<and> scale_service (docker_available (init_autoscaler (Some ''1'') True))
        API_SERVICE_NAME 4 (Some 7) True
       = (False, [Log_would_scale API_SERVICE_NAME 4])
   \<and> last_scaling_action
        (fst (scale_api_instances default_config (init_autoscaler (Some ''1'') True) busy_io))
       = last_scaling_action (init_autoscaler (Some ''1'') True)"
proof -
  have n: "(''1'' :: string) \<noteq> []" by simp
  then have a: "(\<exists>v. Some ''1'' = Some v \<and> v \<noteq> []) \<or> \<not> True" by simp
  from monitoring_only_mode[OF a, of "Some 7" API_SERVICE_NAME 4 True
         "init_autoscaler (Some ''1'') True" default_config busy_io] n
  show ?thesis by blast
qed

section \<open>C9: the synthesized database metric\<close>




section \<open>C2: a failed health request\<close>

text \<open>
  C2. When the health request raises, \<^verbatim>\<open>collect_api_metrics\<close> swallows the exception and
  returns the zero-filled sample (tagged \<^verbatim>\<open>healthy: False\<close>, a tag that nothing reads), and
  the pipeline goes on with it. Under the default linear thresholds the zeros satisfy the
  scale-down condition: with three replicas the tick issues an update to two replicas
  and stamps the cooldown, where the claim requires that no actuation is issued. A
  status other than 200 takes the other path: the collector returns nothing and the
  pipeline stops without an actuation.
\<close>

theorem failed_collection_scales_down:
  "collect_api_metrics (docker_available (init_autoscaler None True))
       (health outage_io) (listing outage_io) = Some zero_metrics
   \<and> get_service_replicas (docker_available (init_autoscaler None True))
       (replicas_read outage_io) = 3
   \<and> snd (scale_api_instances default_config (init_autoscaler None True) outage_io)
       = [Service_update API_SERVICE_NAME 2 True, Counter_inc API_SERVICE_NAME ''down'']
   \<and> last_scaling_action
       (fst (scale_api_instances default_config (init_autoscaler None True) outage_io)) ''api''
       = Some (t_record outage_io)
   \<and> scale_api_instances default_config (init_autoscaler None True)
       (outage_io\<lparr>health := Response 503 None 300\<rparr>)
       = (init_autoscaler None True, [])"
  by (simp add: pipeline_defs decision_defs example_defs)

section \<open>C10: a target already reached\<close>

text \<open>
  C10. When \<^verbatim>\<open>scale_service\<close> finds the orchestrator's replica count already equal to the
  requested target, it returns \<^verbatim>\<open>True\<close> without an update request and without a counter
  increment. In the application pipeline, when the decision differs from the count read
  first and the second read inside \<^verbatim>\<open>scale_service\<close> equals the decision, no update is
  issued and the cooldown of \<^verbatim>\<open>api\<close> is stamped all the same.
\<close>

theorem target_already_reached_stamps_cooldown:
  assumes "docker_available st"
      and "collect_api_metrics (docker_available st) (health io) (listing io) = Some m"
      and "add_metric cfg (metrics_history st) ''api'' ''cpu_usage'' (t_cpu io)
             (get_or_zero m ''cpu_usage'') = Inr h1"
      and "add_metric cfg h1 ''api'' ''memory_usage'' (t_memory io)
             (get_or_zero m ''memory_usage'') = Inr h2"
      and "add_metric cfg h2 ''api'' ''response_time'' (t_response io)
             (get_or_zero m ''response_time'') = Inr h3"
      and "can_scale cfg (last_scaling_action st) ''api'' (t_gate io)"
      and "make_scaling_decision cfg h3 m
             (get_service_replicas (docker_available st) (replicas_read io)) = Inr target"
      and "target \<noteq> get_service_replicas (docker_available st) (replicas_read io)"
      and "scale_read io = Some target"
  shows "scale_service (docker_available st) API_SERVICE_NAME target (scale_read io) (update_ok io)
           = (True, [])
         \<and> scale_api_instances cfg st io
           = (st\<lparr>metrics_history := h3,
                 last_scaling_action := (last_scaling_action st)(''api'' \<mapsto> t_record io)\<rparr>, [])"
  using assms
  by (simp add: scale_api_instances_def scale_service_def record_scaling_action_def Let_def)

theorem target_already_reached_witness:
  "docker_available (init_autoscaler None True)
   \<and> scale_read raced_io = Some 4
   \<and> get_service_replicas (docker_available (init_autoscaler None True)) (replicas_read raced_io) = 3
   \<and> snd (scale_api_instances default_config (init_autoscaler None True) raced_io) = []
   \<and> last_scaling_action
       (fst (scale_api_instances default_config (init_autoscaler None True) raced_io)) ''api''
       = Some (t_record raced_io)"
proof -
  let ?st = "init_autoscaler None True"
  let ?m = "[''healthy'' \<mapsto> PyBool True, ''response_time'' \<mapsto> PyNum 300,
             ''memory_usage'' \<mapsto> PyNum 50, ''cpu_usage'' \<mapsto> PyNum 85, ''error_rate'' \<mapsto> PyNum 0]"
  let ?s1 = "\<lparr>timestamp = 1000000, sample_value = 85\<rparr>"
  let ?s2 = "\<lparr>timestamp = 1000001, sample_value = 50\<rparr>"
  let ?s3 = "\<lparr>timestamp = 1000002, sample_value = 300\<rparr>"
  let ?h1 = "[''api_cpu_usage'' \<mapsto> [?s1]]"
  let ?h2 = "?h1(''api_memory_usage'' \<mapsto> [?s2])"
  let ?h3 = "?h2(''api_response_time'' \<mapsto> [?s3])"
  have a: "docker_available ?st" by (simp add: init_autoscaler_def)
  have b: "collect_api_metrics (docker_available ?st) (health raced_io) (listing raced_io) = Some ?m"
    by (simp add: collect_api_metrics_def container_percent_def example_defs)
  have c1: "add_metric default_config (metrics_history ?st) ''api'' ''cpu_usage'' (t_cpu raced_io)
             (get_or_zero ?m ''cpu_usage'') = Inr ?h1"
    by (simp add: pipeline_defs get_or_zero_def example_defs)
  have c2: "add_metric default_config ?h1 ''api'' ''memory_usage'' (t_memory raced_io)
             (get_or_zero ?m ''memory_usage'') = Inr ?h2"
    by (simp add: pipeline_defs get_or_zero_def example_defs)
  have c3: "add_metric default_config ?h2 ''api'' ''response_time'' (t_response raced_io)
             (get_or_zero ?m ''response_time'') = Inr ?h3"
    by (simp add: pipeline_defs get_or_zero_def example_defs)
  have d: "can_scale default_config (last_scaling_action ?st) ''api'' (t_gate raced_io)"
    by (simp add: can_scale_def init_autoscaler_def)
  have r: "get_service_replicas (docker_available ?st) (replicas_read raced_io) = 3"
    by (simp add: get_service_replicas_def example_defs)
  have e: "make_scaling_decision default_config ?h3 ?m
             (get_service_replicas (docker_available ?st) (replicas_read raced_io)) = Inr 4"
    unfolding r by (simp add: decision_defs example_defs)
  have f: "(4::int) \<noteq> get_service_replicas (docker_available ?st) (replicas_read raced_io)"
    unfolding r by simp
  have g: "scale_read raced_io = Some 4" by (simp add: example_defs)
  from target_already_reached_stamps_cooldown[OF a b c1 c2 c3 d e f g] a g r
  show ?thesis by simp
qed

section \<open>C8: the trend classification\<close>








section \<open>C5: cooldown separation along every trace\<close>
















end
